theory Spec2Isabelle
  imports Main
begin

section \<open>Python values and exceptions\<close>

text \<open>
  The builder and the scripts are Python. An exception that leaves a function is the
  \<open>Inl\<close> branch of a sum; \<open>IndexError\<close> is what a list index out of range raises,
  \<open>TypeError\<close> what comparing \<open>None\<close> raises, \<open>OverflowError\<close> what converting an integer
  beyond the range of a float raises, and \<open>LibraryError\<close> stands for any other subclass
  of \<open>Exception\<close> raised by code called from here.
\<close>

datatype exception = IndexError | TypeError | OverflowError | LibraryError string

text \<open>\<open>parts[i]\<close> for a non-negative literal index \<open>i\<close>.\<close>

definition index :: "'a list \<Rightarrow> nat \<Rightarrow> exception + 'a" where
  "index parts i = (if i < length parts then Inr (parts ! i) else Inl IndexError)"

text \<open>
  \<open>line.split("\t")\<close>: the line is cut at every tab character (code point 9); the result
  always has at least one field, and a field may be empty.
\<close>

definition tab :: char where
  "tab = CHR 0x09"

fun split_tab :: "string \<Rightarrow> string list" where
  "split_tab [] = [[]]"
| "split_tab (c # cs) =
     (if c = tab then [] # split_tab cs
      else (case split_tab cs of
              [] \<Rightarrow> [[c]]
            | w # ws \<Rightarrow> (c # w) # ws))"

section \<open>The directed graph of networkx\<close>

text \<open>
  \<open>nx.DiGraph\<close> keeps a set of nodes and, for every ordered pair of nodes, at most one
  edge with its attributes; the only attribute the builder sets is \<open>label\<close>.
  \<open>add_node\<close> inserts a node (no effect when it is there already); \<open>add_edge(u, v,
  label=t)\<close> inserts both endpoints as nodes when they are missing and sets the label
  of the edge \<open>u \<rightarrow> v\<close>; \<open>has_edge(u, v)\<close> tests for the ordered pair.
\<close>

record digraph =
  nodes :: "string set"
  edges :: "string \<times> string \<rightharpoonup> string"

definition DiGraph :: digraph where
  "DiGraph = \<lparr>nodes = {}, edges = Map.empty\<rparr>"

definition add_node :: "digraph \<Rightarrow> string \<Rightarrow> digraph" where
  "add_node graph n = graph\<lparr>nodes := insert n (nodes graph)\<rparr>"

definition add_edge :: "digraph \<Rightarrow> string \<Rightarrow> string \<Rightarrow> string \<Rightarrow> digraph" where
  "add_edge graph u v lbl =
     graph\<lparr>nodes := insert u (insert v (nodes graph)),
            edges := (edges graph)((u, v) \<mapsto> lbl)\<rparr>"

definition has_edge :: "digraph \<Rightarrow> string \<Rightarrow> string \<Rightarrow> bool" where
  "has_edge graph u v = (edges graph (u, v) \<noteq> None)"

definition edge_set :: "digraph \<Rightarrow> (string \<times> string) set" where
  "edge_set graph = dom (edges graph)"

section \<open>GraphBuilder.py\<close>

text \<open>
  One iteration of the loop of \<open>builtNode\<close>: both reads, \<open>parts[0]\<close> and \<open>parts[2]\<close>,
  happen before the test, so a short line raises whatever its content.
\<close>

definition builtNode_line :: "digraph \<Rightarrow> string \<Rightarrow> exception + digraph" where
  "builtNode_line graph line =
     (let parts = split_tab line in
      case index parts 0 of Inl e \<Rightarrow> Inl e | Inr node \<Rightarrow>
     (case index parts 2 of Inl e \<Rightarrow> Inl e | Inr active \<Rightarrow>
        if active = ''1'' then Inr (add_node graph node) else Inr graph))"

fun builtNode :: "digraph \<Rightarrow> string list \<Rightarrow> exception + digraph" where
  "builtNode graph [] = Inr graph"
| "builtNode graph (line # lines) =
     (case builtNode_line graph line of
        Inl e \<Rightarrow> Inl e
      | Inr graph' \<Rightarrow> builtNode graph' lines)"

definition builtEdge_line :: "digraph \<Rightarrow> string \<Rightarrow> bool \<Rightarrow> exception + digraph" where
  "builtEdge_line graph line without_attribute_relation =
     (let parts = split_tab line in
      case index parts 2 of Inl e \<Rightarrow> Inl e | Inr active \<Rightarrow>
     (case index parts 4 of Inl e \<Rightarrow> Inl e | Inr focus_concept \<Rightarrow>
     (case index parts 5 of Inl e \<Rightarrow> Inl e | Inr attribute_value \<Rightarrow>
     (case index parts 7 of Inl e \<Rightarrow> Inl e | Inr relation_type \<Rightarrow>
        let b = (if without_attribute_relation
                 then active = ''1'' \<and> relation_type = ''116680003''
                 else active = ''1'')
        in if b then
             (if \<not> has_edge graph focus_concept attribute_value
              then Inr (add_edge graph focus_concept attribute_value relation_type)
              else Inr graph)
           else Inr graph))))"

fun builtEdge :: "digraph \<Rightarrow> string list \<Rightarrow> bool \<Rightarrow> exception + digraph" where
  "builtEdge graph [] without_attribute_relation = Inr graph"
| "builtEdge graph (line # lines) without_attribute_relation =
     (case builtEdge_line graph line without_attribute_relation of
        Inl e \<Rightarrow> Inl e
      | Inr graph' \<Rightarrow> builtEdge graph' lines without_attribute_relation)"

text \<open>
  \<open>createGraph\<close> reads the concept file and the relationship file into two lists of
  lines (\<open>Lines0\<close>, \<open>Lines1\<close>), builds the graph and pickles it; the model takes the two
  lists and returns the graph that is pickled.
\<close>

definition createGraph :: "string list \<Rightarrow> string list \<Rightarrow> bool \<Rightarrow> exception + digraph" where
  "createGraph Lines0 Lines1 without_attribute_relation =
     (case builtNode DiGraph Lines0 of
        Inl e \<Rightarrow> Inl e
      | Inr graph \<Rightarrow> builtEdge graph Lines1 without_attribute_relation)"

subsection \<open>What the rows say\<close>

text \<open>
  The predicates below name, in terms of the same \<open>split\<close> and the same index reads,
  what a line contributes: \<open>concept_row line n\<close> holds when the line has the id \<open>n\<close>
  in field 0 and \<open>"1"\<close> in field 2; \<open>admitted w s d line\<close> when the line passes the test
  \<open>b\<close> of \<open>builtEdge\<close> (called with \<open>without_attribute_relation = w\<close>) and has source \<open>s\<close>
  in field 4 and destination \<open>d\<close> in field 5; \<open>label_of line\<close> is its field 7.
\<close>

definition concept_row :: "string \<Rightarrow> string \<Rightarrow> bool" where
  "concept_row line n =
     (let parts = split_tab line in index parts 0 = Inr n \<and> index parts 2 = Inr ''1'')"

definition admitted :: "bool \<Rightarrow> string \<Rightarrow> string \<Rightarrow> string \<Rightarrow> bool" where
  "admitted without_attribute_relation s d line =
     (let parts = split_tab line in
      index parts 2 = Inr ''1'' \<and> index parts 4 = Inr s \<and> index parts 5 = Inr d \<and>
      (if without_attribute_relation then index parts 7 = Inr ''116680003'' else True))"

definition label_of :: "string \<Rightarrow> string option" where
  "label_of line = (case index (split_tab line) 7 of Inl e \<Rightarrow> None | Inr t \<Rightarrow> Some t)"

text \<open>Every edge of a graph of networkx joins two of its nodes.\<close>

definition closed_graph :: "digraph \<Rightarrow> bool" where
  "closed_graph g = (\<forall>u v. edges g (u, v) \<noteq> None \<longrightarrow> u \<in> nodes g \<and> v \<in> nodes g)"

text \<open>A line of a snapshot file with the given columns: \<open>"\t".join(cols)\<close>.\<close>

definition tsv :: "string list \<Rightarrow> string" where
  "tsv cols = (case cols of [] \<Rightarrow> [] | c # cs \<Rightarrow> c @ concat (map (\<lambda>x. tab # x) cs))"

section \<open>Main.py\<close>

text \<open>
  \<open>calculateSimilarity\<close> calls one of seven functions of the module \<open>Measure\<close>, which is
  not among the sources; the module is a parameter, a record of its seven functions.
  What a measure returns has the type \<open>'v\<close>. The value \<open>calculateSimilarity\<close> returns is
  either such a value or a Python string.
\<close>

record ontology =
  rel :: digraph
  sim :: digraph

type_synonym 'v relatedness = "ontology \<Rightarrow> string \<Rightarrow> string \<Rightarrow> exception + 'v"

record 'v Measure =
  calculate_relatedness_WuPalmer :: "'v relatedness"
  calculate_relatedness_ChoiKim :: "'v relatedness"
  calculate_relatedness_LeacockChodorow :: "'v relatedness"
  calculate_relatedness_BatetSanchezValls :: "'v relatedness"
  calculate_relatedness_Resnik :: "'v relatedness"
  calculate_relatedness_Lin :: "'v relatedness"
  calculate_relatedness_JiangConrathDissimilarity :: "'v relatedness"

datatype 'v answer = Score 'v | Str string

definition returned :: "exception + 'v \<Rightarrow> exception + 'v answer" where
  "returned r = (case r of Inl e \<Rightarrow> Inl e | Inr v \<Rightarrow> Inr (Score v))"

definition calculateSimilarity ::
  "'v Measure \<Rightarrow> ontology \<Rightarrow> string \<Rightarrow> string \<Rightarrow> string \<Rightarrow> exception + 'v answer" where
  "calculateSimilarity Measure ontology measure_name concept1 concept2 =
     (if measure_name = ''WuPalmer'' then
        returned (calculate_relatedness_WuPalmer Measure ontology concept1 concept2)
      else if measure_name = ''ChoiKim'' then
        returned (calculate_relatedness_ChoiKim Measure ontology concept1 concept2)
      else if measure_name = ''LeacockChodorow'' then
        returned (calculate_relatedness_LeacockChodorow Measure ontology concept1 concept2)
      else if measure_name = ''BatetSanchezValls'' then
        returned (calculate_relatedness_BatetSanchezValls Measure ontology concept1 concept2)
      else if measure_name = ''Resnik'' then
        returned (calculate_relatedness_Resnik Measure ontology concept1 concept2)
      else if measure_name = ''Lin'' then
        returned (calculate_relatedness_Lin Measure ontology concept1 concept2)
      else if measure_name = ''JiangConrathDissimilarity'' then
        returned (calculate_relatedness_JiangConrathDissimilarity Measure ontology concept1 concept2)
      else Inr (Str ''Wrong measure name!''))"

section \<open>scripts/calculate_all_alphas.py\<close>

text \<open>
  \<open>Worker.length_of_shortest_path(graph, root, concept1, concept2)\<close> is not among the
  sources either. It is a parameter: a function that raises, returns \<open>None\<close> or returns an
  integer, and that gives the same answer to the same question.
\<close>

type_synonym resolver = "digraph \<Rightarrow> string \<Rightarrow> string \<Rightarrow> string \<Rightarrow> exception + int option"

definition SNOMED_ROOT :: string where
  "SNOMED_ROOT = ''138875005''"

text \<open>
  \<open>min(a, b)\<close> of Python: \<open>b\<close> when \<open>b < a\<close>, else \<open>a\<close>; the comparison raises
  \<open>TypeError\<close> when an argument is \<open>None\<close>.
\<close>

definition py_min :: "int option \<Rightarrow> int option \<Rightarrow> exception + int option" where
  "py_min a b =
     (case a of None \<Rightarrow> Inl TypeError
      | Some x \<Rightarrow> (case b of None \<Rightarrow> Inl TypeError
                   | Some y \<Rightarrow> Inr (Some (if y < x then y else x))))"

text \<open>
  The body of the \<open>try\<close> of \<open>shortest_path_distance\<close>, and the function itself:
  \<open>except Exception\<close> turns every exception of the body into the result \<open>None\<close>.
\<close>

definition both_directions :: "resolver \<Rightarrow> digraph \<Rightarrow> string \<Rightarrow> string \<Rightarrow> exception + int option" where
  "both_directions length_of_shortest_path graph concept1 concept2 =
     (case length_of_shortest_path graph SNOMED_ROOT concept1 concept2 of
        Inl e \<Rightarrow> Inl e
      | Inr dist_ab \<Rightarrow>
          (case length_of_shortest_path graph SNOMED_ROOT concept2 concept1 of
             Inl e \<Rightarrow> Inl e
           | Inr dist_ba \<Rightarrow> py_min dist_ab dist_ba))"

definition shortest_path_distance ::
  "resolver \<Rightarrow> digraph \<Rightarrow> string \<Rightarrow> string \<Rightarrow> exception + int option" where
  "shortest_path_distance length_of_shortest_path graph concept1 concept2 =
     (if concept1 = concept2 then Inr (Some 0)
      else (case both_directions length_of_shortest_path graph concept1 concept2 of
              Inl e \<Rightarrow> Inr None
            | Inr distance \<Rightarrow> Inr distance))"

text \<open>
  A cell of a data frame of floats: an integer-valued float, \<open>inf\<close> or \<open>NaN\<close>. A frame is
  addressed by a row label and a column label (\<open>.loc[r, c]\<close>); labels that are not in the
  index have no cell.
\<close>

datatype cell = Num int | Inf | NaN

type_synonym frame = "string \<times> string \<rightharpoonup> cell"

text \<open>
  Storing a Python integer in a frame of floats converts it to a float64: an integer of
  at most 53 bits is kept as it is, a longer one is rounded to 53 significant bits (to
  nearest, ties to even), and when the rounded value reaches \<open>2 ^ 1024\<close> the conversion
  raises \<open>OverflowError\<close>. \<open>bit_length\<close> is \<open>int.bit_length\<close>.
\<close>

fun bit_length :: "nat \<Rightarrow> nat" where
  "bit_length n = (if n = 0 then 0 else Suc (bit_length (n div 2)))"

declare bit_length.simps [simp del]

definition round53 :: "nat \<Rightarrow> nat" where
  "round53 n =
     (let l = bit_length n in
      if l \<le> 53 then n
      else
        let e = l - 53; q = n div 2 ^ e; r = n mod 2 ^ e; half = 2 ^ (e - 1) in
        (if half < r \<or> (r = half \<and> odd q) then q + 1 else q) * 2 ^ e)"

definition float64 :: "int \<Rightarrow> exception + cell" where
  "float64 n =
     (let m = round53 (nat \<bar>n\<bar>) in
      if 2 ^ 1024 \<le> m then Inl OverflowError
      else Inr (Num (if n < 0 then - int m else int m)))"

definition new_frame :: "cell \<Rightarrow> string list \<Rightarrow> frame" where
  "new_frame v labels =
     (\<lambda>(r, c). if r \<in> set labels \<and> c \<in> set labels then Some v else None)"

text \<open>A \<open>for\<close> loop whose body may raise: the first exception ends the loop.\<close>

fun for_each :: "('a \<Rightarrow> 's \<Rightarrow> exception + 's) \<Rightarrow> 'a list \<Rightarrow> 's \<Rightarrow> exception + 's" where
  "for_each body [] s = Inr s"
| "for_each body (x # xs) s =
     (case body x s of Inl e \<Rightarrow> Inl e | Inr s' \<Rightarrow> for_each body xs s')"

text \<open>
  The body of the inner loop of \<open>calculate_pairwise_distances_from_graph\<close>, for the
  positions \<open>i\<close>, \<open>j\<close> and the concepts \<open>c1\<close>, \<open>c2\<close> there. The two stores of \<open>dist\<close> are
  outside any \<open>try\<close>: when the conversion of \<open>dist\<close> raises, the exception leaves the
  function. The counters \<open>calculated\<close> and \<open>missing\<close> are only printed and are left out.
\<close>

definition pairwise_cell ::
  "resolver \<Rightarrow> digraph \<Rightarrow> nat \<times> string \<Rightarrow> nat \<times> string \<Rightarrow> frame \<Rightarrow> exception + frame" where
  "pairwise_cell length_of_shortest_path graph ic1 jc2 distance_matrix =
     (case ic1 of (i, c1) \<Rightarrow> case jc2 of (j, c2) \<Rightarrow>
      if i \<le> j then
        (if i = j then Inr (distance_matrix((c1, c2) \<mapsto> Num 0))
         else (case shortest_path_distance length_of_shortest_path graph c1 c2 of
                 Inl e \<Rightarrow> Inl e
               | Inr (Some dist) \<Rightarrow>
                   (case float64 dist of
                      Inl e \<Rightarrow> Inl e
                    | Inr x \<Rightarrow> Inr (distance_matrix((c1, c2) \<mapsto> x, (c2, c1) \<mapsto> x)))
               | Inr None \<Rightarrow>
                   Inr (distance_matrix((c1, c2) \<mapsto> Num 50, (c2, c1) \<mapsto> Num 50))))
      else Inr distance_matrix)"

definition calculate_pairwise_distances_from_graph ::
  "resolver \<Rightarrow> string list \<Rightarrow> digraph \<Rightarrow> exception + frame" where
  "calculate_pairwise_distances_from_graph length_of_shortest_path concepts graph =
     for_each
       (\<lambda>ic1. for_each (pairwise_cell length_of_shortest_path graph ic1) (enumerate 0 concepts))
       (enumerate 0 concepts)
       (new_frame (Num 0) concepts)"

section \<open>scripts/build_distance_matrix.py\<close>

text \<open>
  The body of the inner loop of \<open>build_distance_matrix\<close>: the distance is stored as a
  float (\<open>None\<close> becomes \<open>NaN\<close> in a frame of floats). The call and the store are both
  inside the \<open>try\<close>: an exception of the resolver, or of the conversion of its integer,
  is caught and \<open>float('inf')\<close> stored.
\<close>

definition matrix_cell ::
  "resolver \<Rightarrow> digraph \<Rightarrow> string \<Rightarrow> string \<Rightarrow> frame \<Rightarrow> exception + frame" where
  "matrix_cell length_of_shortest_path snomed_graph concept1 concept2 matrix =
     (case length_of_shortest_path snomed_graph SNOMED_ROOT concept1 concept2 of
        Inr (Some distance) \<Rightarrow>
          (case float64 distance of
             Inr x \<Rightarrow> Inr (matrix((concept1, concept2) \<mapsto> x))
           | Inl e \<Rightarrow> Inr (matrix((concept1, concept2) \<mapsto> Inf)))
      | Inr None \<Rightarrow> Inr (matrix((concept1, concept2) \<mapsto> NaN))
      | Inl e \<Rightarrow> Inr (matrix((concept1, concept2) \<mapsto> Inf)))"

text \<open>
  \<open>build_distance_matrix\<close> returns \<open>None\<close> when the graph file does not exist;
  \<open>graph_file\<close> is the graph unpickled from the file, if there is one.
\<close>

definition build_distance_matrix ::
  "resolver \<Rightarrow> digraph option \<Rightarrow> string list \<Rightarrow> exception + frame option" where
  "build_distance_matrix length_of_shortest_path graph_file concept_list =
     (case graph_file of
        None \<Rightarrow> Inr None
      | Some snomed_graph \<Rightarrow>
          (case for_each
                  (\<lambda>concept1. for_each
                     (matrix_cell length_of_shortest_path snomed_graph concept1) concept_list)
                  concept_list
                  (new_frame NaN concept_list) of
             Inl e \<Rightarrow> Inl e
           | Inr matrix \<Rightarrow> Inr (Some matrix)))"

section \<open>What the loops compute\<close>

text \<open>
  \<open>seven\<close> lists the names the chain of tests of \<open>calculateSimilarity\<close> compares with.
\<close>

definition seven :: "string list" where
  "seven = [''WuPalmer'', ''ChoiKim'', ''LeacockChodorow'', ''BatetSanchezValls'', ''Resnik'',
            ''Lin'', ''JiangConrathDissimilarity'']"

text \<open>
  \<open>no_path r\<close>: the answer \<open>r\<close> of the resolver is an exception or \<open>None\<close>.
  \<open>pair_ok\<close>: the distance of the pair, when there is one, can be stored as a float;
  \<open>fits\<close>: this holds for all pairs of the list.
\<close>

definition no_path :: "exception + int option \<Rightarrow> bool" where
  "no_path r = (case r of Inl e \<Rightarrow> True | Inr None \<Rightarrow> True | Inr (Some d) \<Rightarrow> False)"

definition pair_ok :: "resolver \<Rightarrow> digraph \<Rightarrow> string \<Rightarrow> string \<Rightarrow> bool" where
  "pair_ok length_of_shortest_path graph c1 c2 =
     (case shortest_path_distance length_of_shortest_path graph c1 c2 of
        Inr (Some dist) \<Rightarrow> (case float64 dist of Inl e \<Rightarrow> False | Inr x \<Rightarrow> True)
      | _ \<Rightarrow> True)"

definition fits :: "resolver \<Rightarrow> digraph \<Rightarrow> string list \<Rightarrow> bool" where
  "fits length_of_shortest_path graph concepts =
     (\<forall>c1\<in>set concepts. \<forall>c2\<in>set concepts. pair_ok length_of_shortest_path graph c1 c2)"

text \<open>
  \<open>stored d\<close> is the cell that holds the integer \<open>d\<close> after \<open>build_distance_matrix\<close> has
  stored it, and after \<open>calculate_pairwise_distances_from_graph\<close> has when the store did
  not raise. \<open>pairwise_value\<close> is what the latter stores for a pair of labels above the
  diagonal, \<open>matrix_value\<close> what the former stores for an ordered pair, and \<open>pair_keys\<close>
  the cells one pass of the inner loop of the latter assigns. \<open>written T K m\<close> is the frame
  \<open>m\<close> after the cells \<open>K\<close> have been assigned the values \<open>T\<close>.
\<close>

definition stored :: "int \<Rightarrow> cell" where
  "stored d = (case float64 d of Inr x \<Rightarrow> x | Inl e \<Rightarrow> Inf)"

definition pairwise_value :: "resolver \<Rightarrow> digraph \<Rightarrow> string \<times> string \<Rightarrow> cell" where
  "pairwise_value length_of_shortest_path graph k =
     (case k of (c1, c2) \<Rightarrow>
        (case shortest_path_distance length_of_shortest_path graph c1 c2 of
           Inr (Some dist) \<Rightarrow> stored dist
         | _ \<Rightarrow> Num 50))"

definition matrix_value :: "resolver \<Rightarrow> digraph \<Rightarrow> string \<times> string \<Rightarrow> cell" where
  "matrix_value length_of_shortest_path snomed_graph k =
     (case k of (concept1, concept2) \<Rightarrow>
        (case length_of_shortest_path snomed_graph SNOMED_ROOT concept1 concept2 of
           Inr (Some distance) \<Rightarrow> stored distance
         | Inr None \<Rightarrow> NaN
         | Inl e \<Rightarrow> Inf))"

definition written :: "('k \<Rightarrow> 'v) \<Rightarrow> 'k set \<Rightarrow> ('k \<rightharpoonup> 'v) \<Rightarrow> ('k \<rightharpoonup> 'v)" where
  "written T K m = (\<lambda>k. if k \<in> K then Some (T k) else m k)"

definition pair_keys :: "nat \<times> string \<Rightarrow> nat \<times> string \<Rightarrow> (string \<times> string) set" where
  "pair_keys ic1 jc2 = (if fst ic1 \<le> fst jc2 then {(snd ic1, snd jc2), (snd jc2, snd ic1)} else {})"

subsection \<open>Examples\<close>

text \<open>
  A resolver for the examples: one hop from \<open>100\<close> to \<open>200\<close>, three hops back, an
  exception for the unknown concept \<open>300\<close>, and \<open>None\<close> otherwise; a resolver that
  answers \<open>2 ^ 1024\<close> except for the unknown concept \<open>300\<close>; and a module of measures
  that all return \<open>1\<close>.
\<close>

definition too_far :: resolver where
  "too_far graph root a b =
     (if a = ''300'' \<or> b = ''300'' then Inl (LibraryError ''NodeNotFound'')
      else Inr (Some (2 ^ 1024)))"

definition one_way :: resolver where
  "one_way graph root a b =
     (if a = ''100'' \<and> b = ''200'' then Inr (Some 1)
      else if a = ''200'' \<and> b = ''100'' then Inr (Some 3)
      else if a = ''300'' then Inl (LibraryError ''NodeNotFound'')
      else Inr None)"

definition unit_Measure :: "int Measure" where
  "unit_Measure =
     \<lparr>calculate_relatedness_WuPalmer = (\<lambda>ontology concept1 concept2. Inr 1),
      calculate_relatedness_ChoiKim = (\<lambda>ontology concept1 concept2. Inr 1),
      calculate_relatedness_LeacockChodorow = (\<lambda>ontology concept1 concept2. Inr 1),
      calculate_relatedness_BatetSanchezValls = (\<lambda>ontology concept1 concept2. Inr 1),
      calculate_relatedness_Resnik = (\<lambda>ontology concept1 concept2. Inr 1),
      calculate_relatedness_Lin = (\<lambda>ontology concept1 concept2. Inr 1),
      calculate_relatedness_JiangConrathDissimilarity = (\<lambda>ontology concept1 concept2. Inr 1)\<rparr>"

section \<open>Properties of the graph builder\<close>

subsection \<open>One line, then the loop\<close>

text \<open>\<open>split\<close> never returns the empty list, so \<open>parts[0]\<close> alone cannot raise.\<close>

lemma split_tab_nonempty: "split_tab s \<noteq> []"
  by (induction s) (auto split: list.splits)

lemma builtNode_line_Inr:
  "builtNode_line g l = Inr g' \<longleftrightarrow>
     2 < length (split_tab l) \<and>
     g' = (if split_tab l ! 2 = ''1'' then add_node g (split_tab l ! 0) else g)"
  by (auto simp: builtNode_line_def Let_def index_def)

lemma builtNode_line_Inl:
  "builtNode_line g l = Inl e \<longleftrightarrow> length (split_tab l) < 3 \<and> e = IndexError"
  by (auto simp: builtNode_line_def Let_def index_def)

lemma builtNode_line_nodes:
  "builtNode_line g l = Inr g' \<Longrightarrow>
     nodes g' = nodes g \<union> {n. concept_row l n} \<and> edges g' = edges g"
  by (auto simp: builtNode_line_Inr concept_row_def Let_def index_def add_node_def)

lemma builtNode_nodes:
  "builtNode g ls = Inr g' \<Longrightarrow>
     nodes g' = nodes g \<union> {n. \<exists>l\<in>set ls. concept_row l n} \<and> edges g' = edges g"
proof (induction ls arbitrary: g)
  case Nil
  then show ?case by simp
next
  case (Cons l ls)
  from Cons.prems obtain g1 where s1: "builtNode_line g l = Inr g1"
    and s2: "builtNode g1 ls = Inr g'"
    by (auto split: sum.splits)
  from builtNode_line_nodes [OF s1] Cons.IH [OF s2] show ?case by auto
qed

lemma builtNode_Inl:
  "builtNode g ls = Inl e \<longleftrightarrow> (\<exists>l\<in>set ls. length (split_tab l) < 3) \<and> e = IndexError"
proof (induction ls arbitrary: g)
  case Nil
  then show ?case by simp
next
  case (Cons l ls)
  show ?case
  proof (cases "builtNode_line g l")
    case (Inl e')
    then show ?thesis using builtNode_line_Inl [of g l e'] by auto
  next
    case (Inr g1)
    then have "2 < length (split_tab l)" by (simp add: builtNode_line_Inr)
    with Inr Cons.IH [of g1] show ?thesis by auto
  qed
qed

lemma builtEdge_line_Inl:
  "builtEdge_line g l wa = Inl e \<longleftrightarrow> length (split_tab l) < 8 \<and> e = IndexError"
  by (auto simp: builtEdge_line_def Let_def index_def)

lemma builtEdge_line_Inr:
  "builtEdge_line g l wa = Inr g' \<longleftrightarrow>
     7 < length (split_tab l) \<and>
     g' = (if split_tab l ! 2 = ''1'' \<and> (wa \<longrightarrow> split_tab l ! 7 = ''116680003'') \<and>
              \<not> has_edge g (split_tab l ! 4) (split_tab l ! 5)
           then add_edge g (split_tab l ! 4) (split_tab l ! 5) (split_tab l ! 7) else g)"
  by (auto simp: builtEdge_line_def Let_def index_def)

lemma builtEdge_line_edges:
  "builtEdge_line g l wa = Inr g' \<Longrightarrow>
     edges g' (s, d) =
       (case edges g (s, d) of Some t \<Rightarrow> Some t
        | None \<Rightarrow> if admitted wa s d l then label_of l else None)"
  by (auto simp: builtEdge_line_Inr admitted_def label_of_def Let_def index_def
        add_edge_def has_edge_def split: option.splits)

lemma builtEdge_edges:
  "builtEdge g ls wa = Inr g' \<Longrightarrow>
     edges g' (s, d) =
       (case edges g (s, d) of Some t \<Rightarrow> Some t
        | None \<Rightarrow> Option.bind (find (admitted wa s d) ls) label_of)"
proof (induction ls arbitrary: g)
  case Nil
  then show ?case by (simp split: option.splits)
next
  case (Cons l ls)
  from Cons.prems obtain g1 where s1: "builtEdge_line g l wa = Inr g1"
    and s2: "builtEdge g1 ls wa = Inr g'"
    by (auto split: sum.splits)
  have lbl: "label_of l \<noteq> None"
    using s1 by (simp add: builtEdge_line_Inr label_of_def index_def)
  show ?case
    using builtEdge_line_edges [OF s1, of s d] Cons.IH [OF s2] lbl
    by (auto split: option.splits)
qed

lemma builtEdge_Inl:
  "builtEdge g ls wa = Inl e \<longleftrightarrow> (\<exists>l\<in>set ls. length (split_tab l) < 8) \<and> e = IndexError"
proof (induction ls arbitrary: g)
  case Nil
  then show ?case by simp
next
  case (Cons l ls)
  show ?case
  proof (cases "builtEdge_line g l wa")
    case (Inl e')
    then show ?thesis using builtEdge_line_Inl [of g l wa e'] by auto
  next
    case (Inr g1)
    then have "7 < length (split_tab l)" by (simp add: builtEdge_line_Inr)
    with Inr Cons.IH [of g1] show ?thesis by auto
  qed
qed

lemma builtEdge_line_nodes:
  "builtEdge_line g l wa = Inr g' \<Longrightarrow> closed_graph g \<Longrightarrow>
     closed_graph g' \<and>
     nodes g' = nodes g \<union> {n. \<exists>s d. admitted wa s d l \<and> (n = s \<or> n = d)}"
  by (auto simp: builtEdge_line_Inr admitted_def Let_def index_def
        add_edge_def has_edge_def closed_graph_def split: if_splits)

lemma builtEdge_nodes:
  "builtEdge g ls wa = Inr g' \<Longrightarrow> closed_graph g \<Longrightarrow>
     closed_graph g' \<and>
     nodes g' = nodes g \<union> {n. \<exists>l\<in>set ls. \<exists>s d. admitted wa s d l \<and> (n = s \<or> n = d)}"
proof (induction ls arbitrary: g)
  case Nil
  then show ?case by simp
next
  case (Cons l ls)
  from Cons.prems obtain g1 where s1: "builtEdge_line g l wa = Inr g1"
    and s2: "builtEdge g1 ls wa = Inr g'"
    by (auto split: sum.splits)
  from builtEdge_line_nodes [OF s1 Cons.prems(2)] Cons.IH [OF s2]
  show ?case by auto
qed

subsection \<open>Nodes\<close>

lemmas run = createGraph_def builtNode_line_def builtEdge_line_def index_def tsv_def tab_def
  DiGraph_def add_edge_def add_node_def has_edge_def

lemma closed_DiGraph: "closed_graph DiGraph"
  by (simp add: closed_graph_def DiGraph_def)

lemma builtNode_closed: "builtNode g ls = Inr g' \<Longrightarrow> closed_graph g \<Longrightarrow> closed_graph g'"
  using builtNode_nodes [of g ls g'] by (auto simp: closed_graph_def)

lemma createGraph_node_iff:
  assumes "createGraph Lines0 Lines1 wa = Inr g"
  shows "n \<in> nodes g \<longleftrightarrow>
           (\<exists>l\<in>set Lines0. concept_row l n) \<or>
           (\<exists>l\<in>set Lines1. \<exists>s d. admitted wa s d l \<and> (n = s \<or> n = d))"
proof -
  from assms obtain g0 where n0: "builtNode DiGraph Lines0 = Inr g0"
    and e0: "builtEdge g0 Lines1 wa = Inr g"
    by (auto simp: createGraph_def split: sum.splits)
  have c0: "closed_graph g0" using builtNode_closed [OF n0 closed_DiGraph] .
  have "nodes g0 = {n. \<exists>l\<in>set Lines0. concept_row l n}"
    using builtNode_nodes [OF n0] by (simp add: DiGraph_def)
  with builtEdge_nodes [OF e0 c0] show ?thesis by auto
qed

text \<open>
  Claim C1, as the code has it. The nodes of a graph that \<open>createGraph\<close> builds are the
  ids of the concept rows whose active field is \<open>"1"\<close> together with the sources and
  destinations of the relationship rows that \<open>builtEdge\<close> admits: \<open>add_edge\<close> makes
  its endpoints nodes, whatever the concept file says about them.
\<close>

theorem createGraph_nodes:
  assumes "createGraph Lines0 Lines1 wa = Inr g"
  shows "n \<in> nodes g \<longleftrightarrow>
           (\<exists>l\<in>set Lines0. concept_row l n) \<or>
           (\<exists>l\<in>set Lines1. \<exists>s d. admitted wa s d l \<and> (n = s \<or> n = d))"
  using assms by (rule createGraph_node_iff)

theorem createGraph_nodes_witness:
  "map_sum id nodes
     (createGraph [tsv [''100'', ''20230430'', ''1''], tsv [''300'', ''20230430'', ''0'']]
        [tsv [''9'', ''20230430'', ''1'', ''m'', ''100'', ''200'', ''0'', ''116680003'']] True)
   = Inr {''100'', ''200''}"
proof -
  let ?c = "[tsv [''100'', ''20230430'', ''1''], tsv [''300'', ''20230430'', ''0'']]"
  let ?r = "[tsv [''9'', ''20230430'', ''1'', ''m'', ''100'', ''200'', ''0'', ''116680003'']]"
  obtain g where e: "createGraph ?c ?r True = Inr g" by (simp add: run)
  have "\<And>n. n \<in> nodes g \<longleftrightarrow> n = ''100'' \<or> n = ''200''"
    using createGraph_nodes [OF e]
    by (auto simp: concept_row_def admitted_def index_def tsv_def tab_def)
  then have "nodes g = {''100'', ''200''}" by auto
  with e show ?thesis by simp
qed

text \<open>
  Claim C1 as stated fails: the only concept row for \<open>100\<close> has active \<open>"0"\<close>, an active
  relationship row has \<open>100\<close> as its source, and \<open>100\<close> is a node of the graph.
\<close>

theorem inactive_concept_node_counterexample:
  "map_sum id nodes
     (createGraph [tsv [''100'', ''20230430'', ''0'']]
        [tsv [''9'', ''20230430'', ''1'', ''m'', ''100'', ''200'', ''0'', ''116680003'']] True)
   = Inr {''100'', ''200''} \<and>
   index (split_tab (tsv [''100'', ''20230430'', ''0''])) 2 = Inr ''0''"
  by (simp add: run)

subsection \<open>Short rows\<close>

lemma builtNode_Inr_iff:
  "(\<exists>g'. builtNode g lines = Inr g') \<longleftrightarrow> (\<forall>l\<in>set lines. 3 \<le> length (split_tab l))"
proof (cases "builtNode g lines")
  case (Inl x)
  then show ?thesis using builtNode_Inl [of g lines x] by (auto simp: not_le)
next
  case (Inr g')
  then show ?thesis using builtNode_Inl [of g lines IndexError] by (auto simp: not_less)
qed

lemma builtEdge_Inr_iff:
  "(\<exists>g'. builtEdge g lines wa = Inr g') \<longleftrightarrow> (\<forall>l\<in>set lines. 8 \<le> length (split_tab l))"
proof (cases "builtEdge g lines wa")
  case (Inl x)
  then show ?thesis using builtEdge_Inl [of g lines wa x] by (auto simp: not_le)
next
  case (Inr g')
  then show ?thesis using builtEdge_Inl [of g lines wa IndexError] by (auto simp: not_less)
qed

text \<open>
  Claim C2 as stated fails: a concept line of two fields, or a relationship line of
  seven, raises \<open>IndexError\<close>, and the rows after it are never read.
\<close>

theorem short_row_counterexample:
  "builtNode DiGraph [tsv [''100'', ''20230430''], tsv [''200'', ''20230430'', ''1'']]
     = Inl IndexError \<and>
   builtEdge DiGraph
     [tsv [''9'', ''20230430'', ''1'', ''m'', ''100'', ''200'', ''0''],
      tsv [''8'', ''20230430'', ''1'', ''m'', ''300'', ''400'', ''0'', ''116680003'']] False
     = Inl IndexError"
  by (simp add: run)

text \<open>
  Claim C2, as the code has it. \<open>builtNode\<close> raises \<open>IndexError\<close> exactly when some line
  has fewer than three fields and returns a graph exactly when every line has at least
  three; \<open>builtEdge\<close> likewise with eight fields. Nothing catches the exception, so the
  build stops at the first short line.
\<close>

theorem short_row_raises:
  "(builtNode g lines = Inl IndexError \<longleftrightarrow> (\<exists>l\<in>set lines. length (split_tab l) < 3)) \<and>
   ((\<exists>g'. builtNode g lines = Inr g') \<longleftrightarrow> (\<forall>l\<in>set lines. 3 \<le> length (split_tab l))) \<and>
   (builtEdge g lines wa = Inl IndexError \<longleftrightarrow> (\<exists>l\<in>set lines. length (split_tab l) < 8)) \<and>
   ((\<exists>g'. builtEdge g lines wa = Inr g') \<longleftrightarrow> (\<forall>l\<in>set lines. 8 \<le> length (split_tab l)))"
  by (simp add: builtNode_Inl builtEdge_Inl builtNode_Inr_iff builtEdge_Inr_iff)

theorem short_row_raises_witness:
  "length (split_tab (tsv [''100'', ''20230430''])) < 3 \<and>
   builtNode DiGraph [tsv [''200'', ''20230430'', ''1''], tsv [''100'', ''20230430'']]
     = Inl IndexError \<and>
   builtEdge DiGraph [tsv [''100'', ''20230430'']] True = Inl IndexError"
  using short_row_raises [of DiGraph
      "[tsv [''200'', ''20230430'', ''1''], tsv [''100'', ''20230430'']]"]
    short_row_raises [of DiGraph "[tsv [''100'', ''20230430'']]" True]
  by (simp add: tsv_def tab_def)

subsection \<open>Edges\<close>

lemma find_admitted_label:
  assumes "\<forall>l\<in>set ls. 8 \<le> length (split_tab l)"
  shows "Option.bind (find P ls) label_of \<noteq> None \<longleftrightarrow> (\<exists>l\<in>set ls. P l)"
proof -
  have "find P ls = None \<longleftrightarrow> \<not> (\<exists>l\<in>set ls. P l)" by (auto simp: find_None_iff)
  moreover have "\<And>l. find P ls = Some l \<Longrightarrow> l \<in> set ls \<and> label_of l \<noteq> None"
  proof -
    fix l assume "find P ls = Some l"
    then have "l \<in> set ls" by (auto simp: find_Some_iff)
    with assms show "l \<in> set ls \<and> label_of l \<noteq> None"
      by (auto simp: label_of_def index_def)
  qed
  ultimately show ?thesis by (cases "find P ls") auto
qed

lemma builtEdge_fields:
  "builtEdge g ls wa = Inr g' \<Longrightarrow> \<forall>l\<in>set ls. 8 \<le> length (split_tab l)"
  using builtEdge_Inr_iff [of g ls wa] by blast

lemma builtEdge_edge_iff:
  assumes "builtEdge g lines wa = Inr g'"
  shows "(has_edge g' s d \<longleftrightarrow> has_edge g s d \<or> (\<exists>l\<in>set lines. admitted wa s d l)) \<and>
         edges g' (s, d) =
           (case edges g (s, d) of
              Some t \<Rightarrow> Some t
            | None \<Rightarrow> Option.bind (find (admitted wa s d) lines) label_of)"
proof -
  have lbl: "edges g' (s, d) =
           (case edges g (s, d) of
              Some t \<Rightarrow> Some t
            | None \<Rightarrow> Option.bind (find (admitted wa s d) lines) label_of)"
    using builtEdge_edges [OF assms] .
  have "has_edge g' s d \<longleftrightarrow> has_edge g s d \<or> (\<exists>l\<in>set lines. admitted wa s d l)"
    using find_admitted_label [OF builtEdge_fields [OF assms], of "admitted wa s d"] lbl
    by (auto simp: has_edge_def split: option.splits)
  with lbl show ?thesis by simp
qed

lemmas rows = concept_row_def admitted_def label_of_def edge_set_def

text \<open>
  Claim C3. When \<open>builtEdge\<close> returns, the edge \<open>s \<rightarrow> d\<close> is in the graph exactly when
  it was there before or some row is admitted with source \<open>s\<close> (field 4) and destination
  \<open>d\<close> (field 5): active field \<open>"1"\<close>, and for the is-a graph type field
  \<open>"116680003"\<close>. The pair carries one label: the one it had, or else the type of the
  first admitted row for the pair; a later row for the same pair changes nothing.
\<close>

theorem builtEdge_admission:
  assumes "builtEdge g lines wa = Inr g'"
  shows "(has_edge g' s d \<longleftrightarrow> has_edge g s d \<or> (\<exists>l\<in>set lines. admitted wa s d l)) \<and>
         edges g' (s, d) =
           (case edges g (s, d) of
              Some t \<Rightarrow> Some t
            | None \<Rightarrow> Option.bind (find (admitted wa s d) lines) label_of)"
  using assms by (rule builtEdge_edge_iff)

theorem builtEdge_admission_witness:
  "map_sum id (\<lambda>g. (edges g (''100'', ''200''), edges g (''200'', ''100''),
                     edges g (''300'', ''400''), edges g (''500'', ''600'')))
     (builtEdge DiGraph
        [tsv [''1'', ''20230430'', ''1'', ''m'', ''100'', ''200'', ''0'', ''116680003''],
         tsv [''2'', ''20230430'', ''1'', ''m'', ''100'', ''200'', ''0'', ''363698007''],
         tsv [''3'', ''20230430'', ''0'', ''m'', ''300'', ''400'', ''0'', ''116680003''],
         tsv [''4'', ''20230430'', ''1'', ''m'', ''500'', ''600'', ''0'', ''363698007'']] True)
   = Inr (Some ''116680003'', None, None, None)"
proof -
  let ?ls = "[tsv [''1'', ''20230430'', ''1'', ''m'', ''100'', ''200'', ''0'', ''116680003''],
         tsv [''2'', ''20230430'', ''1'', ''m'', ''100'', ''200'', ''0'', ''363698007''],
         tsv [''3'', ''20230430'', ''0'', ''m'', ''300'', ''400'', ''0'', ''116680003''],
         tsv [''4'', ''20230430'', ''1'', ''m'', ''500'', ''600'', ''0'', ''363698007'']]"
  obtain g where e: "builtEdge DiGraph ?ls True = Inr g" by (simp add: run)
  have "edges g (''100'', ''200'') = Some ''116680003''"
    and "edges g (''200'', ''100'') = None"
    and "edges g (''300'', ''400'') = None"
    and "edges g (''500'', ''600'') = None"
    using builtEdge_admission [OF e, of "''100''" "''200''"]
      builtEdge_admission [OF e, of "''200''" "''100''"]
      builtEdge_admission [OF e, of "''300''" "''400''"]
      builtEdge_admission [OF e, of "''500''" "''600''"]
    by (simp_all add: rows index_def tsv_def tab_def DiGraph_def)
  with e show ?thesis by simp
qed

lemma createGraph_edges:
  assumes "createGraph Lines0 Lines1 wa = Inr g"
  shows "edge_set g = {(s, d). \<exists>l\<in>set Lines1. admitted wa s d l}"
proof -
  from assms obtain g0 where n0: "builtNode DiGraph Lines0 = Inr g0"
    and e0: "builtEdge g0 Lines1 wa = Inr g"
    by (auto simp: createGraph_def split: sum.splits)
  have "edges g0 = Map.empty" using builtNode_nodes [OF n0] by (simp add: DiGraph_def)
  then have "\<And>s d. \<not> has_edge g0 s d" by (simp add: has_edge_def)
  with builtEdge_edge_iff [OF e0]
  have "\<And>s d. has_edge g s d \<longleftrightarrow> (\<exists>l\<in>set Lines1. admitted wa s d l)" by simp
  then show ?thesis by (auto simp: edge_set_def has_edge_def)
qed

lemma admitted_isa_rel: "admitted True s d l \<Longrightarrow> admitted False s d l"
  by (simp add: admitted_def Let_def)

lemma createGraph_total:
  "(\<exists>g. createGraph Lines0 Lines1 wa = Inr g) \<longleftrightarrow>
     (\<forall>l\<in>set Lines0. 3 \<le> length (split_tab l)) \<and> (\<forall>l\<in>set Lines1. 8 \<le> length (split_tab l))"
proof (cases "builtNode DiGraph Lines0")
  case (Inl e)
  then show ?thesis
    using builtNode_Inr_iff [of DiGraph Lines0] by (auto simp: createGraph_def)
next
  case (Inr g0)
  then show ?thesis
    using builtNode_Inr_iff [of DiGraph Lines0] builtEdge_Inr_iff [of g0 Lines1 wa]
    by (auto simp: createGraph_def)
qed

text \<open>
  Claim C8. From the same two files, when the is-a build returns a graph the relation
  build returns one too, and every edge (ordered pair) and every node of the is-a graph
  is an edge, respectively a node, of the relation graph.
\<close>

theorem relation_graph_superset:
  assumes "createGraph Lines0 Lines1 True = Inr isa"
  shows "\<exists>rel. createGraph Lines0 Lines1 False = Inr rel \<and>
           edge_set isa \<subseteq> edge_set rel \<and> nodes isa \<subseteq> nodes rel"
proof -
  from assms createGraph_total [of Lines0 Lines1 True] createGraph_total [of Lines0 Lines1 False]
  obtain rel where r: "createGraph Lines0 Lines1 False = Inr rel" by blast
  have "edge_set isa \<subseteq> edge_set rel"
    unfolding createGraph_edges [OF assms] createGraph_edges [OF r]
    using admitted_isa_rel by blast
  moreover have "nodes isa \<subseteq> nodes rel"
    using createGraph_node_iff [OF assms] createGraph_node_iff [OF r] admitted_isa_rel by blast
  ultimately show ?thesis using r by blast
qed

theorem relation_graph_superset_witness:
  "map_sum id edge_set
     (createGraph [tsv [''100'', ''20230430'', ''1'']]
        [tsv [''1'', ''20230430'', ''1'', ''m'', ''100'', ''200'', ''0'', ''116680003''],
         tsv [''4'', ''20230430'', ''1'', ''m'', ''500'', ''600'', ''0'', ''363698007'']] True)
   = Inr {(''100'', ''200'')} \<and>
   map_sum id edge_set
     (createGraph [tsv [''100'', ''20230430'', ''1'']]
        [tsv [''1'', ''20230430'', ''1'', ''m'', ''100'', ''200'', ''0'', ''116680003''],
         tsv [''4'', ''20230430'', ''1'', ''m'', ''500'', ''600'', ''0'', ''363698007'']] False)
   = Inr {(''100'', ''200''), (''500'', ''600'')}"
proof -
  let ?c = "[tsv [''100'', ''20230430'', ''1'']]"
  let ?r = "[tsv [''1'', ''20230430'', ''1'', ''m'', ''100'', ''200'', ''0'', ''116680003''],
         tsv [''4'', ''20230430'', ''1'', ''m'', ''500'', ''600'', ''0'', ''363698007'']]"
  obtain isa where e: "createGraph ?c ?r True = Inr isa" by (simp add: run)
  from relation_graph_superset [OF e] e show ?thesis
    by (auto simp add: run edge_set_def)
qed

text \<open>
  The inclusion is one of ordered pairs. The label of a shared pair can differ: each
  graph keeps the type of the first row it admitted for the pair.
\<close>

lemma relation_label_may_differ:
  "map_sum id (\<lambda>g. edges g (''100'', ''200''))
     (createGraph []
        [tsv [''2'', ''20230430'', ''1'', ''m'', ''100'', ''200'', ''0'', ''363698007''],
         tsv [''1'', ''20230430'', ''1'', ''m'', ''100'', ''200'', ''0'', ''116680003'']] True)
   = Inr (Some ''116680003'') \<and>
   map_sum id (\<lambda>g. edges g (''100'', ''200''))
     (createGraph []
        [tsv [''2'', ''20230430'', ''1'', ''m'', ''100'', ''200'', ''0'', ''363698007''],
         tsv [''1'', ''20230430'', ''1'', ''m'', ''100'', ''200'', ''0'', ''116680003'']] False)
   = Inr (Some ''363698007'')"
  by (simp add: run)

lemma two_cycle: "a \<noteq> b \<Longrightarrow> \<not> acyclic {(a, b), (b, a)}"
proof
  assume "acyclic {(a, b), (b, a)}"
  moreover have "(a, a) \<in> {(a, b), (b, a)}\<^sup>+"
    by (rule trancl_trans [of a b]) auto
  ultimately show False by (simp add: acyclic_def)
qed

text \<open>
  Claim C9 as stated fails: two active is-a rows, \<open>100 \<rightarrow> 200\<close> and \<open>200 \<rightarrow> 100\<close>,
  are both admitted, and the is-a graph has a cycle.
\<close>

theorem isa_cycle_counterexample:
  "map_sum id (\<lambda>g. acyclic (edge_set g))
     (createGraph [tsv [''100'', ''20230430'', ''1''], tsv [''200'', ''20230430'', ''1'']]
        [tsv [''1'', ''20230430'', ''1'', ''m'', ''100'', ''200'', ''0'', ''116680003''],
         tsv [''2'', ''20230430'', ''1'', ''m'', ''200'', ''100'', ''0'', ''116680003'']] True)
   = Inr False"
proof -
  have "\<not> acyclic {(''100'', ''200''), (''200'', ''100'')}"
    by (rule two_cycle) simp
  then have "\<not> acyclic {(''200'', ''100''), (''100'', ''200'')}"
    by (simp add: insert_commute)
  then show ?thesis by (simp add: run edge_set_def)
qed

text \<open>
  Claim C9, as the code has it. The edges of the is-a graph are exactly the pairs
  (source, destination) of the admitted rows, so the graph is acyclic exactly when those
  pairs form no directed cycle; the builder neither checks for cycles nor removes them.
\<close>

theorem isa_graph_acyclic_iff:
  assumes "createGraph Lines0 Lines1 True = Inr g"
  shows "edge_set g = {(s, d). \<exists>l\<in>set Lines1. admitted True s d l} \<and>
         (acyclic (edge_set g) \<longleftrightarrow> acyclic {(s, d). \<exists>l\<in>set Lines1. admitted True s d l})"
  using createGraph_edges [OF assms] by simp

theorem isa_graph_acyclic_iff_witness:
  "map_sum id (\<lambda>g. acyclic (edge_set g))
     (createGraph [tsv [''100'', ''20230430'', ''1''], tsv [''200'', ''20230430'', ''1'']]
        [tsv [''1'', ''20230430'', ''1'', ''m'', ''100'', ''200'', ''0'', ''116680003''],
         tsv [''2'', ''20230430'', ''1'', ''m'', ''200'', ''300'', ''0'', ''116680003'']] True)
   = Inr True"
proof -
  let ?c = "[tsv [''100'', ''20230430'', ''1''], tsv [''200'', ''20230430'', ''1'']]"
  let ?r = "[tsv [''1'', ''20230430'', ''1'', ''m'', ''100'', ''200'', ''0'', ''116680003''],
         tsv [''2'', ''20230430'', ''1'', ''m'', ''200'', ''300'', ''0'', ''116680003'']]"
  obtain g where e: "createGraph ?c ?r True = Inr g" by (simp add: run)
  have "{(s, d). \<exists>l\<in>set ?r. admitted True s d l} = {(''100'', ''200''), (''200'', ''300'')}"
    by (auto simp: admitted_def index_def tsv_def tab_def)
  moreover have "acyclic ({} :: (string \<times> string) set)"
    by (simp add: acyclic_def)
  then have "acyclic {(''100'', ''200''), (''200'', ''300'')}"
    by (simp add: rtrancl_insert)
  ultimately have "acyclic (edge_set g)"
    using isa_graph_acyclic_iff [OF e] by simp
  with e show ?thesis by simp
qed

section \<open>Properties of the dispatch\<close>

text \<open>
  Claim C5. For a name that is none of the seven compared with, \<open>calculateSimilarity\<close>
  returns the message \<open>"Wrong measure name!"\<close>, whatever the measures, the graphs and
  the concepts are: a string that says what is wrong, and never a score.
\<close>

theorem unsupported_measure:
  assumes "measure_name \<notin> set seven"
  shows "calculateSimilarity Measure ontology measure_name concept1 concept2 =
           Inr (Str ''Wrong measure name!'') \<and>
         (\<forall>v. calculateSimilarity Measure ontology measure_name concept1 concept2 \<noteq>
                Inr (Score v))"
  using assms by (simp add: calculateSimilarity_def seven_def)

theorem unsupported_measure_witness:
  "calculateSimilarity unit_Measure \<lparr>rel = DiGraph, sim = DiGraph\<rparr> ''Cosine'' ''100'' ''200''
     = Inr (Str ''Wrong measure name!'') \<and>
   calculateSimilarity unit_Measure \<lparr>rel = DiGraph, sim = DiGraph\<rparr> ''Resnik'' ''100'' ''200''
     = Inr (Score 1)"
proof -
  have "''Cosine'' \<notin> set seven" by (simp add: seven_def)
  from unsupported_measure [OF this, of unit_Measure "\<lparr>rel = DiGraph, sim = DiGraph\<rparr>" "''100''" "''200''"]
  show ?thesis
    by (simp add: calculateSimilarity_def unit_Measure_def returned_def)
qed

section \<open>Properties of the distances\<close>

lemma py_min_commute: "py_min a b = py_min b a"
  by (cases a; cases b) (auto simp: py_min_def)

lemma both_directions_None_commute:
  "(case both_directions R g a b of Inl e \<Rightarrow> Inr None | Inr d \<Rightarrow> Inr d) =
   ((case both_directions R g b a of Inl e \<Rightarrow> Inr None | Inr d \<Rightarrow> Inr d) :: exception + int option)"
proof (cases "R g SNOMED_ROOT a b")
  case ab: (Inl e)
  then show ?thesis
    by (cases "R g SNOMED_ROOT b a") (simp_all add: both_directions_def)
next
  case ab: (Inr x)
  show ?thesis
  proof (cases "R g SNOMED_ROOT b a")
    case (Inl e)
    with ab show ?thesis by (simp add: both_directions_def)
  next
    case (Inr y)
    with ab show ?thesis
      by (simp add: both_directions_def py_min_commute [of x y])
  qed
qed

lemma spd_commute:
  "shortest_path_distance R g a b = shortest_path_distance R g b a"
proof (cases "a = b")
  case True
  then show ?thesis by simp
next
  case False
  then have "b \<noteq> a" by simp
  with False show ?thesis
    unfolding shortest_path_distance_def
    using both_directions_None_commute [of R g a b] by simp
qed

lemma spd_Inr: "\<exists>d. shortest_path_distance R g a b = Inr d"
  by (simp add: shortest_path_distance_def split: sum.splits)

lemma spd_raises:
  assumes "c1 \<noteq> c2" "R g SNOMED_ROOT c1 c2 = Inl e"
  shows "shortest_path_distance R g c1 c2 = Inr None"
  using assms by (simp add: shortest_path_distance_def both_directions_def)

text \<open>
  Claim C6. Whatever the resolver answers in the two directions, the distance of
  \<open>c1\<close> and \<open>c2\<close> is the distance of \<open>c2\<close> and \<open>c1\<close>.
\<close>

theorem shortest_path_distance_symmetric:
  "shortest_path_distance length_of_shortest_path graph c1 c2 =
   shortest_path_distance length_of_shortest_path graph c2 c1"
  by (rule spd_commute)

theorem shortest_path_distance_symmetric_witness:
  "shortest_path_distance one_way DiGraph ''100'' ''200'' = Inr (Some 1) \<and>
   shortest_path_distance one_way DiGraph ''200'' ''100'' = Inr (Some 1)"
  using shortest_path_distance_symmetric [of one_way DiGraph "''100''" "''200''"]
  by (simp add: shortest_path_distance_def both_directions_def py_min_def one_way_def)

text \<open>
  Claim C10. With equal arguments the result is \<open>0\<close> and no exception, for every
  resolver and every graph, hence also for an id that is no node of the graph: the
  result does not depend on either.
\<close>

theorem shortest_path_distance_equal_arguments:
  "shortest_path_distance length_of_shortest_path graph c c = Inr (Some 0) \<and>
   shortest_path_distance length_of_shortest_path graph c c =
     shortest_path_distance length_of_shortest_path' graph' c c"
  by (simp add: shortest_path_distance_def)

section \<open>Properties of the conversion to float\<close>

text \<open>
  An integer below \<open>2 ^ 53\<close> in absolute value is stored as it is; one of absolute value
  \<open>2 ^ 1024\<close> or more raises \<open>OverflowError\<close>, the only exception of the conversion.
\<close>

lemma bit_length_le: "n < 2 ^ k \<Longrightarrow> bit_length n \<le> k"
proof (induction k arbitrary: n)
  case 0
  then show ?case by (simp add: bit_length.simps)
next
  case (Suc k)
  show ?case
  proof (cases "n = 0")
    case True
    then show ?thesis by (simp add: bit_length.simps)
  next
    case False
    from Suc.prems have "n div 2 < 2 ^ k" by simp
    then have "bit_length (n div 2) \<le> k" by (rule Suc.IH)
    with False show ?thesis by (subst bit_length.simps) simp
  qed
qed

lemma bit_length_upper: "n < 2 ^ bit_length n"
proof (induction n rule: bit_length.induct)
  case (1 n)
  show ?case
  proof (cases "n = 0")
    case True
    then show ?thesis by (simp add: bit_length.simps)
  next
    case False
    then have "n div 2 < 2 ^ bit_length (n div 2)" by (rule "1.IH")
    then have "n < 2 * 2 ^ bit_length (n div 2)" by linarith
    with False show ?thesis by (subst bit_length.simps) simp
  qed
qed

lemma bit_length_lower: "0 < n \<Longrightarrow> 2 ^ (bit_length n - 1) \<le> n"
proof (induction n rule: bit_length.induct)
  case (1 n)
  then have n: "n \<noteq> 0" by simp
  have bl: "bit_length n = Suc (bit_length (n div 2))"
    using n by (subst bit_length.simps) simp
  show ?case
  proof (cases "n div 2 = 0")
    case True
    then have "bit_length (n div 2) = 0" by (simp add: bit_length.simps)
    with bl "1.prems" show ?thesis by simp
  next
    case False
    then have pos: "0 < n div 2" by simp
    have ih: "2 ^ (bit_length (n div 2) - 1) \<le> n div 2"
      using "1.IH" [OF n pos] .
    have "bit_length (n div 2) \<noteq> 0"
      using False by (subst bit_length.simps) simp
    then obtain b where b: "bit_length (n div 2) = Suc b" by (cases "bit_length (n div 2)") auto
    from ih b have "2 ^ b \<le> n div 2" by simp
    then have "2 * 2 ^ b \<le> n" by linarith
    with bl b show ?thesis by simp
  qed
qed

lemma float64_small:
  assumes "\<bar>n\<bar> < 2 ^ 53"
  shows "float64 n = Inr (Num n)"
proof -
  from assms have m: "nat \<bar>n\<bar> < 2 ^ 53"
    by (simp add: nat_less_iff)
  then have "bit_length (nat \<bar>n\<bar>) \<le> 53" by (rule bit_length_le)
  then have r: "round53 (nat \<bar>n\<bar>) = nat \<bar>n\<bar>" by (simp add: round53_def)
  have "(2::nat) ^ 53 < 2 ^ 1024" by simp
  with m have "\<not> (2::nat) ^ 1024 \<le> nat \<bar>n\<bar>" by linarith
  with r show ?thesis by (simp add: float64_def Let_def)
qed

lemma float64_Inl: "float64 n = Inl e \<Longrightarrow> e = OverflowError"
  by (auto simp: float64_def Let_def split: if_splits)

lemma round53_lower:
  assumes "2 ^ k \<le> n" and "53 \<le> k"
  shows "2 ^ k \<le> round53 n"
proof -
  let ?l = "bit_length n"
  from assms(1) have pos: "0 < n"
    by (metis less_le_trans zero_less_numeral zero_less_power)
  have "2 ^ k < (2::nat) ^ ?l" using assms(1) bit_length_upper [of n] by linarith
  then have kl: "k < ?l" by simp
  with assms(2) have l53: "\<not> ?l \<le> 53" by simp
  define e where "e = ?l - 53"
  define h where "h = ?l - 1 - e"
  define q where "q = n div 2 ^ e"
  have le: "?l - 1 = h + e" using l53 by (simp add: e_def h_def)
  have "(2::nat) ^ (h + e) \<le> n"
    using bit_length_lower [OF pos] unfolding le .
  then have "2 ^ h * 2 ^ e \<le> n" by (simp add: power_add)
  then have "2 ^ h \<le> q"
    unfolding q_def by (simp add: less_eq_div_iff_mult_less_eq)
  then have qe: "(2::nat) ^ h * 2 ^ e \<le> q * 2 ^ e" by (rule mult_le_mono1)
  have "(2::nat) ^ k \<le> 2 ^ (h + e)"
    using kl le by (intro power_increasing) simp_all
  then have "(2::nat) ^ k \<le> 2 ^ h * 2 ^ e" by (simp add: power_add)
  from this qe have base: "2 ^ k \<le> q * 2 ^ e" by (rule le_trans)
  have "q * 2 ^ e \<le> round53 n"
    using l53 by (simp add: round53_def Let_def e_def [symmetric] q_def [symmetric])
  with base show ?thesis by linarith
qed

lemma float64_overflow:
  assumes "2 ^ 1024 \<le> \<bar>n\<bar>"
  shows "float64 n = Inl OverflowError"
proof -
  from assms have "2 ^ 1024 \<le> nat \<bar>n\<bar>"
    by (simp add: le_nat_iff)
  then have "2 ^ 1024 \<le> round53 (nat \<bar>n\<bar>)"
    by (rule round53_lower) simp
  then show ?thesis by (simp add: float64_def Let_def)
qed

section \<open>Properties of the distance matrices\<close>

lemma written_written: "written T K' (written T K m) = written T (K \<union> K') m"
  by (auto simp: written_def fun_eq_iff)

lemma written_empty: "written T {} m = m"
  by (simp add: written_def)

lemma written_one: "written T {k} m = m(k \<mapsto> T k)"
  by (rule ext) (simp add: written_def)

lemma written_two: "written T {k, k'} m = m(k \<mapsto> T k, k' \<mapsto> T k')"
  by (rule ext) (simp add: written_def)

lemma for_each_written:
  assumes "\<And>x m. x \<in> set xs \<Longrightarrow> body x m = Inr (written T (K x) m)"
  shows "for_each body xs m = Inr (written T (\<Union>x\<in>set xs. K x) m)"
  using assms
proof (induction xs arbitrary: m)
  case Nil
  then show ?case by (simp add: written_empty)
next
  case (Cons x xs)
  have step: "body x m = Inr (written T (K x) m)" using Cons.prems by simp
  have rest: "for_each body xs (written T (K x) m) =
                Inr (written T (\<Union>y\<in>set xs. K y) (written T (K x) m))"
    using Cons.IH [of "written T (K x) m"] Cons.prems by simp
  from step rest show ?case by (simp add: written_written)
qed

lemma for_each_Inl_only:
  assumes "\<forall>x\<in>set xs. \<forall>m e. body x m = Inl e \<longrightarrow> e = E"
    and "for_each body xs m = Inl e"
  shows "e = E"
  using assms
proof (induction xs arbitrary: m)
  case Nil
  then show ?case by simp
next
  case (Cons x xs)
  show ?case
  proof (cases "body x m")
    case (Inl e')
    with Cons.prems show ?thesis by auto
  next
    case (Inr m')
    with Cons.prems(2) have "for_each body xs m' = Inl e" by simp
    moreover from Cons.prems(1)
    have "\<forall>x\<in>set xs. \<forall>m e. body x m = Inl e \<longrightarrow> e = E" by simp
    ultimately show ?thesis by (rule Cons.IH [rotated])
  qed
qed

lemma for_each_raises:
  assumes "q \<in> set xs"
    and "\<forall>m. body q m = Inl E"
    and "\<forall>x\<in>set xs. \<forall>m e. body x m = Inl e \<longrightarrow> e = E"
  shows "for_each body xs m = Inl E"
  using assms
proof (induction xs arbitrary: m)
  case Nil
  then show ?case by simp
next
  case (Cons x xs)
  show ?case
  proof (cases "body x m")
    case (Inl e')
    with Cons.prems(3) show ?thesis by auto
  next
    case (Inr m')
    with Cons.prems(2) have "q \<noteq> x" by auto
    with Cons.prems(1) have q: "q \<in> set xs" by simp
    from Cons.prems(3)
    have r: "\<forall>x\<in>set xs. \<forall>m e. body x m = Inl e \<longrightarrow> e = E" by simp
    have "for_each body xs m' = Inl E"
      using q Cons.prems(2) r by (rule Cons.IH)
    with Inr show ?thesis by simp
  qed
qed

lemma stored_0: "stored 0 = Num 0"
  by (simp add: stored_def float64_small)

lemma pair_ok_diag: "pair_ok R g c c"
  by (simp add: pair_ok_def shortest_path_distance_def float64_small)

lemma pair_ok_commute: "pair_ok R g a b = pair_ok R g b a"
  by (simp add: pair_ok_def spd_commute [of R g a b])

lemma pairwise_value_diag: "pairwise_value R g (c, c) = Num 0"
  by (simp add: pairwise_value_def shortest_path_distance_def stored_0)

lemma pairwise_value_commute: "pairwise_value R g (a, b) = pairwise_value R g (b, a)"
  by (simp add: pairwise_value_def spd_commute [of R g a b])

lemma pairwise_cell_below:
  "j < i \<Longrightarrow> pairwise_cell R g (i, c1) (j, c2) m = Inr m"
  by (simp add: pairwise_cell_def)

lemma pairwise_cell_diag:
  "pairwise_cell R g (i, c) (i, c) m = Inr (m((c, c) \<mapsto> Num 0))"
  by (simp add: pairwise_cell_def)

lemma pairwise_cell_above:
  assumes "i < j"
  shows "pairwise_cell R g (i, c1) (j, c2) m =
           (if pair_ok R g c1 c2
            then Inr (m((c1, c2) \<mapsto> pairwise_value R g (c1, c2),
                        (c2, c1) \<mapsto> pairwise_value R g (c2, c1)))
            else Inl OverflowError)"
proof -
  obtain d where d: "shortest_path_distance R g c1 c2 = Inr d"
    using spd_Inr [of R g c1 c2] by blast
  have d': "shortest_path_distance R g c2 c1 = Inr d"
    using d spd_commute [of R g c2 c1] by simp
  from assms have ij: "i \<le> j" "i \<noteq> j" by simp_all
  show ?thesis
  proof (cases d)
    case None
    then show ?thesis
      by (simp add: pairwise_cell_def pairwise_value_def pair_ok_def d d' ij)
  next
    case (Some n)
    show ?thesis
    proof (cases "float64 n")
      case (Inl e)
      then have "e = OverflowError" by (rule float64_Inl)
      with Inl Some show ?thesis
        by (simp add: pairwise_cell_def pair_ok_def d ij)
    next
      case (Inr x)
      with Some show ?thesis
        by (simp add: pairwise_cell_def pairwise_value_def pair_ok_def stored_def d d' ij)
    qed
  qed
qed

lemma pairwise_cell_Inl:
  assumes "pairwise_cell R g p q m = Inl e"
  shows "e = OverflowError"
proof -
  obtain i c1 where p: "p = (i, c1)" by (cases p)
  obtain j c2 where q: "q = (j, c2)" by (cases q)
  consider "j < i" | "i = j" | "i < j" by linarith
  then show ?thesis
  proof cases
    case 1
    with assms show ?thesis by (simp add: p q pairwise_cell_def)
  next
    case 2
    with assms show ?thesis by (simp add: p q pairwise_cell_def)
  next
    case 3
    with assms show ?thesis
      by (simp add: p q pairwise_cell_above split: if_splits)
  qed
qed

lemma pairwise_cell_written:
  assumes "fst ic1 = fst jc2 \<Longrightarrow> snd ic1 = snd jc2"
    and "pair_ok R g (snd ic1) (snd jc2)"
  shows "pairwise_cell R g ic1 jc2 m = Inr (written (pairwise_value R g) (pair_keys ic1 jc2) m)"
proof -
  obtain i c1 where ic1: "ic1 = (i, c1)" by (cases ic1)
  obtain j c2 where jc2: "jc2 = (j, c2)" by (cases jc2)
  consider "j < i" | "i = j" | "i < j" by linarith
  then show ?thesis
  proof cases
    case 1
    then have "pair_keys ic1 jc2 = {}" by (simp add: ic1 jc2 pair_keys_def)
    with 1 show ?thesis
      by (simp add: ic1 jc2 pairwise_cell_below written_empty)
  next
    case 2
    with assms(1) ic1 jc2 have c: "c2 = c1" by simp
    have "pair_keys ic1 jc2 = {(c1, c1)}" by (simp add: ic1 jc2 pair_keys_def 2 c)
    then show ?thesis
      by (simp add: ic1 jc2 2 c pairwise_cell_diag written_one pairwise_value_diag)
  next
    case 3
    then have "pair_keys ic1 jc2 = {(c1, c2), (c2, c1)}" by (simp add: ic1 jc2 pair_keys_def)
    moreover from assms(2) have "pair_ok R g c1 c2" by (simp add: ic1 jc2)
    ultimately show ?thesis using 3
      by (simp add: ic1 jc2 pairwise_cell_above written_two)
  qed
qed

lemma enumerate_same_index:
  assumes "p \<in> set (enumerate 0 cs)" "q \<in> set (enumerate 0 cs)" "fst p = fst q"
  shows "snd p = snd q"
  using assms by (auto simp: in_set_enumerate_eq)

lemma enumerate_label: "p \<in> set (enumerate 0 cs) \<Longrightarrow> snd p \<in> set cs"
  using nth_mem [of "fst p" cs] by (auto simp: in_set_enumerate_eq)

lemma pair_keys_cover:
  "(\<Union>p\<in>set (enumerate 0 cs). \<Union>q\<in>set (enumerate 0 cs). pair_keys p q) = set cs \<times> set cs"
proof (rule set_eqI)
  fix k :: "string \<times> string"
  obtain a b where k: "k = (a, b)" by (cases k)
  show "k \<in> (\<Union>p\<in>set (enumerate 0 cs). \<Union>q\<in>set (enumerate 0 cs). pair_keys p q)
          \<longleftrightarrow> k \<in> set cs \<times> set cs"
  proof
    assume "k \<in> (\<Union>p\<in>set (enumerate 0 cs). \<Union>q\<in>set (enumerate 0 cs). pair_keys p q)"
    then obtain p q where p: "p \<in> set (enumerate 0 cs)" and q: "q \<in> set (enumerate 0 cs)"
      and kk: "k \<in> pair_keys p q" by blast
    from p q have "snd p \<in> set cs" "snd q \<in> set cs"
      by (simp_all add: enumerate_label)
    with kk show "k \<in> set cs \<times> set cs"
      by (auto simp: pair_keys_def split: if_splits)
  next
    assume "k \<in> set cs \<times> set cs"
    with k have "a \<in> set cs" "b \<in> set cs" by auto
    then obtain i j where i: "i < length cs" "cs ! i = a" and j: "j < length cs" "cs ! j = b"
      by (auto simp: in_set_conv_nth)
    have pi: "(i, a) \<in> set (enumerate 0 cs)" and pj: "(j, b) \<in> set (enumerate 0 cs)"
      using i j by (auto simp: in_set_enumerate_eq)
    show "k \<in> (\<Union>p\<in>set (enumerate 0 cs). \<Union>q\<in>set (enumerate 0 cs). pair_keys p q)"
    proof (cases "i \<le> j")
      case True
      then have "k \<in> pair_keys (i, a) (j, b)" by (simp add: k pair_keys_def)
      with pi pj show ?thesis by blast
    next
      case False
      then have "k \<in> pair_keys (j, b) (i, a)" by (simp add: k pair_keys_def)
      with pi pj show ?thesis by blast
    qed
  qed
qed

lemma calculate_pairwise_fits:
  assumes "fits R g concepts"
  shows "calculate_pairwise_distances_from_graph R concepts g =
     Inr (\<lambda>k. if k \<in> set concepts \<times> set concepts then Some (pairwise_value R g k) else None)"
proof -
  let ?es = "enumerate 0 concepts"
  let ?T = "pairwise_value R g"
  have inner: "\<And>p m. p \<in> set ?es \<Longrightarrow>
      for_each (pairwise_cell R g p) ?es m = Inr (written ?T (\<Union>q\<in>set ?es. pair_keys p q) m)"
  proof -
    fix p m assume p: "p \<in> set ?es"
    show "for_each (pairwise_cell R g p) ?es m = Inr (written ?T (\<Union>q\<in>set ?es. pair_keys p q) m)"
    proof (rule for_each_written)
      fix q m' assume q: "q \<in> set ?es"
      with p have same: "fst p = fst q \<Longrightarrow> snd p = snd q" by (rule enumerate_same_index)
      from p q have "snd p \<in> set concepts" "snd q \<in> set concepts"
        by (simp_all add: enumerate_label)
      with assms have "pair_ok R g (snd p) (snd q)" by (simp add: fits_def)
      with same show "pairwise_cell R g p q m' = Inr (written ?T (pair_keys p q) m')"
        by (rule pairwise_cell_written)
    qed
  qed
  have "for_each (\<lambda>p. for_each (pairwise_cell R g p) ?es) ?es (new_frame (Num 0) concepts) =
          Inr (written ?T (\<Union>p\<in>set ?es. \<Union>q\<in>set ?es. pair_keys p q) (new_frame (Num 0) concepts))"
    by (rule for_each_written) (rule inner)
  then show ?thesis
    by (simp add: calculate_pairwise_distances_from_graph_def pair_keys_cover written_def
          new_frame_def fun_eq_iff)
qed

lemma calculate_pairwise_overflow:
  assumes "\<not> fits R g concepts"
  shows "calculate_pairwise_distances_from_graph R concepts g = Inl OverflowError"
proof -
  let ?es = "enumerate 0 concepts"
  from assms obtain a b where a: "a \<in> set concepts" and b: "b \<in> set concepts"
    and bad: "\<not> pair_ok R g a b"
    by (auto simp: fits_def)
  from a b obtain i j where i: "i < length concepts" "concepts ! i = a"
    and j: "j < length concepts" "concepts ! j = b"
    by (auto simp: in_set_conv_nth)
  from bad pair_ok_diag [of R g a] have "a \<noteq> b" by auto
  with i j have "i \<noteq> j" by auto
  define lo where "lo = min i j"
  define hi where "hi = max i j"
  have lohi: "lo < hi" "lo < length concepts" "hi < length concepts"
    using \<open>i \<noteq> j\<close> i(1) j(1) by (auto simp: lo_def hi_def)
  have bad': "\<not> pair_ok R g (concepts ! lo) (concepts ! hi)"
  proof (cases "i < j")
    case True
    then show ?thesis using bad i j by (simp add: lo_def hi_def)
  next
    case False
    with \<open>i \<noteq> j\<close> have "j < i" by simp
    then show ?thesis using bad i j pair_ok_commute [of R g a b]
      by (simp add: lo_def hi_def)
  qed
  have plo: "(lo, concepts ! lo) \<in> set ?es" and phi: "(hi, concepts ! hi) \<in> set ?es"
    using lohi by (auto simp: in_set_enumerate_eq)
  have cell_only: "\<And>p. \<forall>x\<in>set ?es. \<forall>m e. pairwise_cell R g p x m = Inl e \<longrightarrow> e = OverflowError"
    using pairwise_cell_Inl by blast
  have row_only: "\<forall>p\<in>set ?es. \<forall>m e.
      for_each (pairwise_cell R g p) ?es m = Inl e \<longrightarrow> e = OverflowError"
    using for_each_Inl_only [OF cell_only] by blast
  have hit: "\<forall>m. pairwise_cell R g (lo, concepts ! lo) (hi, concepts ! hi) m = Inl OverflowError"
    using lohi(1) bad' by (simp add: pairwise_cell_above)
  have inner: "\<forall>m. for_each (pairwise_cell R g (lo, concepts ! lo)) ?es m = Inl OverflowError"
  proof
    fix m
    show "for_each (pairwise_cell R g (lo, concepts ! lo)) ?es m = Inl OverflowError"
      using phi hit cell_only by (rule for_each_raises)
  qed
  have "for_each (\<lambda>p. for_each (pairwise_cell R g p) ?es) ?es (new_frame (Num 0) concepts)
          = Inl OverflowError"
    using plo inner row_only by (rule for_each_raises)
  then show ?thesis by (simp add: calculate_pairwise_distances_from_graph_def)
qed

lemma calculate_pairwise_result:
  "calculate_pairwise_distances_from_graph R concepts g =
     (if fits R g concepts
      then Inr (\<lambda>k. if k \<in> set concepts \<times> set concepts
                     then Some (pairwise_value R g k) else None)
      else Inl OverflowError)"
  by (simp add: calculate_pairwise_fits calculate_pairwise_overflow)

lemma matrix_cell_written:
  "matrix_cell R g c1 c2 m = Inr (written (matrix_value R g) {(c1, c2)} m)"
  by (auto simp: matrix_cell_def matrix_value_def stored_def written_def fun_eq_iff
        split: sum.splits option.splits)

lemma build_distance_matrix_result:
  "build_distance_matrix R (Some g) concept_list =
     Inr (Some (\<lambda>k. if k \<in> set concept_list \<times> set concept_list
                     then Some (matrix_value R g k) else None))"
proof -
  let ?T = "matrix_value R g"
  have inner: "\<And>c1 m. c1 \<in> set concept_list \<Longrightarrow>
      for_each (matrix_cell R g c1) concept_list m =
        Inr (written ?T (\<Union>c2\<in>set concept_list. {(c1, c2)}) m)"
    by (rule for_each_written) (rule matrix_cell_written)
  have "for_each (\<lambda>c1. for_each (matrix_cell R g c1) concept_list) concept_list
          (new_frame NaN concept_list) =
        Inr (written ?T (\<Union>c1\<in>set concept_list. \<Union>c2\<in>set concept_list. {(c1, c2)})
               (new_frame NaN concept_list))"
    by (rule for_each_written) (rule inner)
  moreover have "(\<Union>c1\<in>set concept_list. \<Union>c2\<in>set concept_list. {(c1, c2)}) =
                  set concept_list \<times> set concept_list" by auto
  ultimately show ?thesis
    by (simp add: build_distance_matrix_def written_def new_frame_def fun_eq_iff)
qed

lemma both_directions_small:
  assumes "\<forall>a b d. R g SNOMED_ROOT a b = Inr (Some d) \<longrightarrow> \<bar>d\<bar> < 2 ^ 53"
    and "both_directions R g a b = Inr (Some d)"
  shows "\<bar>d\<bar> < 2 ^ 53"
proof -
  from assms(2) obtain x y where x: "R g SNOMED_ROOT a b = Inr (Some x)"
    and y: "R g SNOMED_ROOT b a = Inr (Some y)" and d: "d = (if y < x then y else x)"
    by (auto simp: both_directions_def py_min_def split: sum.splits option.splits)
  from assms(1) x y have "\<bar>x\<bar> < 2 ^ 53" "\<bar>y\<bar> < 2 ^ 53" by blast+
  with d show ?thesis by (simp split: if_splits)
qed

lemma fits_small:
  assumes "\<forall>a b d. R g SNOMED_ROOT a b = Inr (Some d) \<longrightarrow> \<bar>d\<bar> < 2 ^ 53"
  shows "fits R g concepts"
proof -
  have "pair_ok R g a b" for a b
  proof (cases "a = b")
    case True
    then show ?thesis by (simp add: pair_ok_diag)
  next
    case False
    show ?thesis
    proof (cases "both_directions R g a b")
      case (Inl e)
      with False show ?thesis by (simp add: pair_ok_def shortest_path_distance_def)
    next
      case (Inr r)
      show ?thesis
      proof (cases r)
        case None
        with Inr False show ?thesis by (simp add: pair_ok_def shortest_path_distance_def)
      next
        case (Some d)
        with Inr have "\<bar>d\<bar> < 2 ^ 53" using both_directions_small [where R = R and g = g, OF assms] by simp
        then have "float64 d = Inr (Num d)" by (rule float64_small)
        with Inr Some False show ?thesis
          by (simp add: pair_ok_def shortest_path_distance_def)
      qed
    qed
  qed
  then show ?thesis by (simp add: fits_def)
qed

lemma spd_no_path:
  assumes "c1 \<noteq> c2"
    and "no_path (R g SNOMED_ROOT c1 c2) \<or> no_path (R g SNOMED_ROOT c2 c1)"
  shows "shortest_path_distance R g c1 c2 = Inr None"
  using assms
  by (auto simp: shortest_path_distance_def both_directions_def py_min_def no_path_def
        split: sum.splits option.splits)

lemma one_way_small:
  "\<forall>a b d. one_way g SNOMED_ROOT a b = Inr (Some d) \<longrightarrow> \<bar>d\<bar> < 2 ^ 53"
  by (simp add: one_way_def)

lemma self_distance_zero_aux:
  "shortest_path_distance R graph c c = Inr (Some 0) \<and>
   (\<forall>M. calculate_pairwise_distances_from_graph R concepts graph = Inr M \<longrightarrow>
        (\<forall>c\<in>set concepts. M (c, c) = Some (Num 0))) \<and>
   ((\<exists>M. calculate_pairwise_distances_from_graph R concepts graph = Inr M) \<longleftrightarrow>
      fits R graph concepts) \<and>
   (\<exists>M. build_distance_matrix R (Some graph) concepts = Inr (Some M) \<and>
        (\<forall>c\<in>set concepts. R graph SNOMED_ROOT c c = Inr (Some 0) \<longrightarrow>
           M (c, c) = Some (Num 0)))"
proof -
  have a: "shortest_path_distance R graph c c = Inr (Some 0)"
    by (simp add: shortest_path_distance_def)
  have b: "\<forall>M. calculate_pairwise_distances_from_graph R concepts graph = Inr M \<longrightarrow>
        (\<forall>c\<in>set concepts. M (c, c) = Some (Num 0))"
    by (auto simp: calculate_pairwise_result pairwise_value_diag split: if_splits)
  have c: "(\<exists>M. calculate_pairwise_distances_from_graph R concepts graph = Inr M) \<longleftrightarrow>
      fits R graph concepts"
    by (simp add: calculate_pairwise_result)
  have d: "\<exists>M. build_distance_matrix R (Some graph) concepts = Inr (Some M) \<and>
        (\<forall>c\<in>set concepts. R graph SNOMED_ROOT c c = Inr (Some 0) \<longrightarrow>
           M (c, c) = Some (Num 0))"
    by (simp add: build_distance_matrix_result matrix_value_def stored_0)
  from a b c d show ?thesis by blast
qed

lemma unreachable_pair_cells_aux:
  assumes "c1 \<in> set concepts" and "c2 \<in> set concepts" and "c1 \<noteq> c2"
    and "no_path (R graph SNOMED_ROOT c1 c2) \<or> no_path (R graph SNOMED_ROOT c2 c1)"
  shows "(\<forall>M. calculate_pairwise_distances_from_graph R concepts graph = Inr M \<longrightarrow>
            M (c1, c2) = Some (Num 50) \<and> M (c2, c1) = Some (Num 50)) \<and>
         (fits R graph concepts \<longrightarrow>
            (\<exists>M. calculate_pairwise_distances_from_graph R concepts graph = Inr M)) \<and>
         (\<not> fits R graph concepts \<longrightarrow>
            calculate_pairwise_distances_from_graph R concepts graph = Inl OverflowError) \<and>
         (\<exists>M. build_distance_matrix R (Some graph) concepts = Inr (Some M) \<and>
            M (c1, c2) = Some (matrix_value R graph (c1, c2)) \<and>
            M (c2, c1) = Some (matrix_value R graph (c2, c1)) \<and>
            (\<forall>e. R graph SNOMED_ROOT c1 c2 = Inl e \<longrightarrow> M (c1, c2) = Some Inf) \<and>
            (R graph SNOMED_ROOT c1 c2 = Inr None \<longrightarrow> M (c1, c2) = Some NaN) \<and>
            (\<forall>e. R graph SNOMED_ROOT c2 c1 = Inl e \<longrightarrow> M (c2, c1) = Some Inf) \<and>
            (R graph SNOMED_ROOT c2 c1 = Inr None \<longrightarrow> M (c2, c1) = Some NaN)) \<and>
         Num 50 \<noteq> Num 0 \<and> Inf \<noteq> Num 0 \<and> NaN \<noteq> Num 0"
proof -
  have v: "pairwise_value R graph (c1, c2) = Num 50"
    using spd_no_path [where R = R and g = graph, OF assms(3,4)]
    by (simp add: pairwise_value_def)
  then have v': "pairwise_value R graph (c2, c1) = Num 50"
    using pairwise_value_commute [of R graph c1 c2] by simp
  have a: "\<forall>M. calculate_pairwise_distances_from_graph R concepts graph = Inr M \<longrightarrow>
            M (c1, c2) = Some (Num 50) \<and> M (c2, c1) = Some (Num 50)"
    using assms(1,2) v v' by (auto simp: calculate_pairwise_result split: if_splits)
  have b: "fits R graph concepts \<longrightarrow>
            (\<exists>M. calculate_pairwise_distances_from_graph R concepts graph = Inr M)"
    by (simp add: calculate_pairwise_result)
  have c: "\<not> fits R graph concepts \<longrightarrow>
            calculate_pairwise_distances_from_graph R concepts graph = Inl OverflowError"
    by (simp add: calculate_pairwise_result)
  have d: "\<exists>M. build_distance_matrix R (Some graph) concepts = Inr (Some M) \<and>
            M (c1, c2) = Some (matrix_value R graph (c1, c2)) \<and>
            M (c2, c1) = Some (matrix_value R graph (c2, c1)) \<and>
            (\<forall>e. R graph SNOMED_ROOT c1 c2 = Inl e \<longrightarrow> M (c1, c2) = Some Inf) \<and>
            (R graph SNOMED_ROOT c1 c2 = Inr None \<longrightarrow> M (c1, c2) = Some NaN) \<and>
            (\<forall>e. R graph SNOMED_ROOT c2 c1 = Inl e \<longrightarrow> M (c2, c1) = Some Inf) \<and>
            (R graph SNOMED_ROOT c2 c1 = Inr None \<longrightarrow> M (c2, c1) = Some NaN)"
    using assms(1,2) by (auto simp: build_distance_matrix_result matrix_value_def)
  have e: "Num 50 \<noteq> Num 0 \<and> Inf \<noteq> Num 0 \<and> NaN \<noteq> Num 0" by simp
  show ?thesis
    apply (rule conjI [OF a])
    apply (rule conjI [OF b])
    apply (rule conjI [OF c])
    apply (rule conjI [OF d])
    apply (rule e)
    done
qed

text \<open>
  Claim C7. The distance from a concept to itself is \<open>0\<close>. Every matrix that
  \<open>calculate_pairwise_distances_from_graph\<close> returns has \<open>0\<close> in every diagonal cell, also
  when the list names a concept twice, and it returns one exactly when every distance
  it computes can be stored as a float (else the store raises \<open>OverflowError\<close>).
  \<open>build_distance_matrix\<close> always returns a matrix; its diagonal cell for \<open>c\<close> holds
  what the resolver answers for \<open>c\<close> and \<open>c\<close>, so it is \<open>0\<close> where that answer is \<open>0\<close>.
\<close>

theorem self_distance_zero:
  "shortest_path_distance length_of_shortest_path graph c c = Inr (Some 0) \<and>
   (\<forall>M. calculate_pairwise_distances_from_graph length_of_shortest_path concepts graph = Inr M \<longrightarrow>
        (\<forall>c\<in>set concepts. M (c, c) = Some (Num 0))) \<and>
   ((\<exists>M. calculate_pairwise_distances_from_graph length_of_shortest_path concepts graph = Inr M) \<longleftrightarrow>
      fits length_of_shortest_path graph concepts) \<and>
   (\<exists>M. build_distance_matrix length_of_shortest_path (Some graph) concepts = Inr (Some M) \<and>
        (\<forall>c\<in>set concepts. length_of_shortest_path graph SNOMED_ROOT c c = Inr (Some 0) \<longrightarrow>
           M (c, c) = Some (Num 0)))"
  by (rule self_distance_zero_aux)

theorem self_distance_zero_witness:
  "shortest_path_distance one_way DiGraph ''300'' ''300'' = Inr (Some 0) \<and>
   fits one_way DiGraph [''100'', ''300'', ''100''] \<and>
   map_sum id (\<lambda>M. (M (''300'', ''300''), M (''100'', ''100'')))
     (calculate_pairwise_distances_from_graph one_way [''100'', ''300'', ''100''] DiGraph)
   = Inr (Some (Num 0), Some (Num 0))"
proof -
  let ?cs = "[''100'', ''300'', ''100'']"
  have f: "fits one_way DiGraph ?cs" using one_way_small by (rule fits_small)
  from self_distance_zero [of one_way DiGraph "''300''" ?cs] f
  obtain M where M: "calculate_pairwise_distances_from_graph one_way ?cs DiGraph = Inr M"
    and d: "\<forall>c\<in>set ?cs. M (c, c) = Some (Num 0)"
    and z: "shortest_path_distance one_way DiGraph ''300'' ''300'' = Inr (Some 0)"
    by blast
  from d have "M (''300'', ''300'') = Some (Num 0)" "M (''100'', ''100'') = Some (Num 0)"
    by simp_all
  with M z f show ?thesis by simp
qed

lemma too_far_not_fits: "\<not> fits too_far DiGraph [''100'', ''200'', ''300'']"
proof -
  have "shortest_path_distance too_far DiGraph ''100'' ''200'' = Inr (Some (2 ^ 1024))"
    by (simp add: shortest_path_distance_def both_directions_def py_min_def too_far_def)
  moreover have "float64 (2 ^ 1024) = Inl OverflowError"
    by (rule float64_overflow) simp
  ultimately have "\<not> pair_ok too_far DiGraph ''100'' ''200''"
    by (simp add: pair_ok_def)
  then show ?thesis by (auto simp: fits_def)
qed

text \<open>
  Claim C4 as stated fails twice. Where the resolver raises, \<open>build_distance_matrix\<close>
  stores \<open>inf\<close>, not \<open>50\<close>. And \<open>calculate_pairwise_distances_from_graph\<close> lets an
  \<open>OverflowError\<close> escape, on a list with an unreachable pair, when the distance of
  another pair is an integer beyond the range of a float.
\<close>

theorem inf_not_sentinel_counterexample:
  "one_way DiGraph SNOMED_ROOT ''300'' ''400'' = Inl (LibraryError ''NodeNotFound'') \<and>
   map_sum id (map_option (\<lambda>M. M (''300'', ''400'')))
     (build_distance_matrix one_way (Some DiGraph) [''300'', ''400''])
   = Inr (Some (Some Inf)) \<and>
   Inf \<noteq> Num 50 \<and>
   too_far DiGraph SNOMED_ROOT ''100'' ''300'' = Inl (LibraryError ''NodeNotFound'') \<and>
   calculate_pairwise_distances_from_graph too_far [''100'', ''200'', ''300''] DiGraph
   = Inl OverflowError"
  by (simp add: build_distance_matrix_result matrix_value_def one_way_def too_far_def
        calculate_pairwise_overflow [OF too_far_not_fits])

text \<open>
  Claim C4, as the code has it. Let \<open>c1\<close> and \<open>c2\<close> be distinct concepts of the list for
  which the resolver raises or returns \<open>None\<close> in one direction or the other. Every
  matrix that \<open>calculate_pairwise_distances_from_graph\<close> returns has \<open>50\<close> in both
  symmetric cells; it returns one when every distance it computes can be stored as a
  float, and otherwise \<open>OverflowError\<close> escapes. \<open>build_distance_matrix\<close> always returns
  a matrix and lets no exception escape; each of the two cells holds what its own query
  gave: \<open>inf\<close> where the query raised, \<open>NaN\<close> where it returned \<open>None\<close>, never a
  sentinel \<open>50\<close>. None of \<open>50\<close>, \<open>inf\<close> and \<open>NaN\<close> is the distance \<open>0\<close>.
\<close>

theorem unreachable_pair_cells:
  assumes "c1 \<in> set concepts" and "c2 \<in> set concepts" and "c1 \<noteq> c2"
    and "no_path (length_of_shortest_path graph SNOMED_ROOT c1 c2) \<or>
         no_path (length_of_shortest_path graph SNOMED_ROOT c2 c1)"
  shows "(\<forall>M. calculate_pairwise_distances_from_graph length_of_shortest_path concepts graph = Inr M \<longrightarrow>
            M (c1, c2) = Some (Num 50) \<and> M (c2, c1) = Some (Num 50)) \<and>
         (fits length_of_shortest_path graph concepts \<longrightarrow>
            (\<exists>M. calculate_pairwise_distances_from_graph length_of_shortest_path concepts graph = Inr M)) \<and>
         (\<not> fits length_of_shortest_path graph concepts \<longrightarrow>
            calculate_pairwise_distances_from_graph length_of_shortest_path concepts graph =
              Inl OverflowError) \<and>
         (\<exists>M. build_distance_matrix length_of_shortest_path (Some graph) concepts = Inr (Some M) \<and>
            M (c1, c2) = Some (matrix_value length_of_shortest_path graph (c1, c2)) \<and>
            M (c2, c1) = Some (matrix_value length_of_shortest_path graph (c2, c1)) \<and>
            (\<forall>e. length_of_shortest_path graph SNOMED_ROOT c1 c2 = Inl e \<longrightarrow> M (c1, c2) = Some Inf) \<and>
            (length_of_shortest_path graph SNOMED_ROOT c1 c2 = Inr None \<longrightarrow> M (c1, c2) = Some NaN) \<and>
            (\<forall>e. length_of_shortest_path graph SNOMED_ROOT c2 c1 = Inl e \<longrightarrow> M (c2, c1) = Some Inf) \<and>
            (length_of_shortest_path graph SNOMED_ROOT c2 c1 = Inr None \<longrightarrow> M (c2, c1) = Some NaN)) \<and>
         Num 50 \<noteq> Num 0 \<and> Inf \<noteq> Num 0 \<and> NaN \<noteq> Num 0"
  using assms by (rule unreachable_pair_cells_aux)

theorem unreachable_pair_cells_witness:
  "no_path (one_way DiGraph SNOMED_ROOT ''300'' ''400'') \<and>
   fits one_way DiGraph [''100'', ''200'', ''300'', ''400''] \<and>
   map_sum id (\<lambda>M. (M (''300'', ''400''), M (''400'', ''300''), M (''100'', ''200''),
                     M (''200'', ''100''), M (''100'', ''100'')))
     (calculate_pairwise_distances_from_graph one_way [''100'', ''200'', ''300'', ''400''] DiGraph)
   = Inr (Some (Num 50), Some (Num 50), Some (Num 1), Some (Num 1), Some (Num 0)) \<and>
   map_sum id (map_option (\<lambda>M. (M (''300'', ''400''), M (''400'', ''300''), M (''100'', ''200''),
                     M (''200'', ''100''))))
     (build_distance_matrix one_way (Some DiGraph) [''100'', ''200'', ''300'', ''400''])
   = Inr (Some (Some Inf, Some NaN, Some (Num 1), Some (Num 3)))"
proof -
  let ?cs = "[''100'', ''200'', ''300'', ''400'']"
  have f: "fits one_way DiGraph ?cs" using one_way_small by (rule fits_small)
  have n: "no_path (one_way DiGraph SNOMED_ROOT ''300'' ''400'')"
    by (simp add: no_path_def one_way_def)
  then have n': "no_path (one_way DiGraph SNOMED_ROOT ''300'' ''400'') \<or>
      no_path (one_way DiGraph SNOMED_ROOT ''400'' ''300'')" by simp
  have "''300'' \<in> set ?cs" "''400'' \<in> set ?cs" "''300'' \<noteq> ''400''" by simp_all
  from unreachable_pair_cells [where length_of_shortest_path = one_way and graph = DiGraph,
      OF this n'] f
  obtain M M' where M: "calculate_pairwise_distances_from_graph one_way ?cs DiGraph = Inr M"
    and c: "M (''300'', ''400'') = Some (Num 50)" "M (''400'', ''300'') = Some (Num 50)"
    and M': "build_distance_matrix one_way (Some DiGraph) ?cs = Inr (Some M')"
    and c': "M' (''300'', ''400'') = Some (matrix_value one_way DiGraph (''300'', ''400''))"
      "M' (''400'', ''300'') = Some (matrix_value one_way DiGraph (''400'', ''300''))"
    by blast
  have M_eq: "M = (\<lambda>k. if k \<in> set ?cs \<times> set ?cs then Some (pairwise_value one_way DiGraph k) else None)"
    using M f calculate_pairwise_result [of one_way ?cs DiGraph] by simp
  have M'_eq: "M' = (\<lambda>k. if k \<in> set ?cs \<times> set ?cs then Some (matrix_value one_way DiGraph k) else None)"
    using M' build_distance_matrix_result [of one_way DiGraph ?cs] by simp
  have s1: "stored 1 = Num 1" and s3: "stored 3 = Num 3"
    by (simp_all add: stored_def float64_small)
  have "M (''100'', ''200'') = Some (Num 1)" "M (''200'', ''100'') = Some (Num 1)"
    "M (''100'', ''100'') = Some (Num 0)"
    by (simp_all add: M_eq pairwise_value_def shortest_path_distance_def both_directions_def
          py_min_def one_way_def s1 stored_0)
  moreover have "M' (''300'', ''400'') = Some Inf" "M' (''400'', ''300'') = Some NaN"
    "M' (''100'', ''200'') = Some (Num 1)" "M' (''200'', ''100'') = Some (Num 3)"
    by (simp_all add: M'_eq matrix_value_def one_way_def s1 s3)
  ultimately show ?thesis using M M' c f n by simp
qed

end
